theory Spec2Isabelle
  imports Complex_Main
begin

section \<open>Values of the host language\<close>

text \<open>
  A string is the list of its code points. \<open>undefined\<close> as the content of an optional
  field or parameter is \<open>None\<close>.
\<close>

type_synonym jsstring = "nat list"

definition str :: "string \<Rightarrow> jsstring" where
  "str s = map of_char s"

text \<open>
  A number is NaN, an infinity or a finite value, given exactly as a rational. The code
  compares a status with integer literals only: \<open>lt x k\<close> is \<open>x < k\<close>, \<open>gt x k\<close> is
  \<open>x > k\<close>, \<open>le x k\<close> is \<open>x <= k\<close> and \<open>ge x k\<close> is \<open>x >= k\<close>, each of them false when
  \<open>x\<close> is NaN.
\<close>

datatype number = NaN | Finite rat | PosInfinity | NegInfinity

fun lt :: "number \<Rightarrow> rat \<Rightarrow> bool" where
  "lt NaN k = False"
| "lt (Finite x) k = (x < k)"
| "lt PosInfinity k = False"
| "lt NegInfinity k = True"

fun gt :: "number \<Rightarrow> rat \<Rightarrow> bool" where
  "gt NaN k = False"
| "gt (Finite x) k = (x > k)"
| "gt PosInfinity k = True"
| "gt NegInfinity k = False"

fun le :: "number \<Rightarrow> rat \<Rightarrow> bool" where
  "le NaN k = False"
| "le (Finite x) k = (x \<le> k)"
| "le PosInfinity k = False"
| "le NegInfinity k = True"

fun ge :: "number \<Rightarrow> rat \<Rightarrow> bool" where
  "ge NaN k = False"
| "ge (Finite x) k = (x \<ge> k)"
| "ge PosInfinity k = True"
| "ge NegInfinity k = False"

text \<open>\<open>CustomErrorType = "error" | "warn"\<close> (types).\<close>

datatype CustomErrorType = error | warn

text \<open>
  The classes of the package: \<open>CustomError\<close>, the classes extending \<open>WarnError\<close>
  (modules/warn.ts) and the classes extending \<open>ExceptionError\<close> (modules/exception.ts).
\<close>

datatype warn_class =
    WarnError | BadRequestWarn | UnauthorizedWarn | ForbiddenWarn | NotFoundWarn
  | ConflictWarn | ValidationWarn | TooManyRequestsWarn | UnknownRouteWarn | AuthWarn

datatype exception_class =
    ExceptionError | InternalServerError | DatabaseError | MailError | EncryptError
  | ConfigError | IntegrationError | TimeoutError | StorageError | NetworkError
  | LogError | MemoryError | AuthError

datatype error_class = CustomError | Warn warn_class | Exception exception_class

text \<open>
  An instance of \<open>CustomError\<close> or of a class extending it: \<open>name_of\<close> is the class that
  \<open>new\<close> was applied to (\<open>this.name = this.constructor.name\<close>), the other fields are the
  public fields of the class; \<open>status\<close> is a \<open>number\<close>. A field read gives \<open>undefined\<close> when
  nothing was stored, which is what \<open>toHttp\<close> provides for with
  \<open>this.userMessage ?? this.message\<close>, so \<open>userMessage_of\<close> is optional in the model as
  \<open>data\<close> and \<open>cause\<close> are in the class.
\<close>

datatype 'v error_object = ErrorObject
  (name_of: error_class) (message_of: jsstring) (code_of: jsstring) (type_of: CustomErrorType)
  (status_of: number) (userMessage_of: "jsstring option")
  (data_of: "(jsstring \<times> 'v) list option") (cause_of: "'v option")

text \<open>
  The values a caller can pass where the code says \<open>unknown\<close>: the primitives; ordinary
  objects with data properties (\<open>JObject\<close>, the list of the own properties, prototype
  \<open>Object.prototype\<close>); native \<open>Error\<close> objects (name and message); the instances of
  \<open>CustomError\<close>; and any other value (an array, a function, a symbol, an object with
  methods of its own or with another prototype), given by what \<open>String()\<close> does with it:
  the string it returns or the exception it throws.
\<close>

datatype jsval =
    JUndefined | JNull | JBool bool | JNum number | JStr jsstring
  | JObject "(jsstring \<times> jsval) list"
  | JError jsstring jsstring
  | JCustom "jsval error_object"
  | JOther "js_exception + jsstring"
and js_exception = TypeError | Thrown jsval

type_synonym CustomError_instance = "jsval error_object"

text \<open>\<open>CustomErrorProperties\<close> and \<open>CustomErrorPartialProperties\<close> (types).\<close>

record CustomErrorProperties =
  p_code :: "jsstring option"
  p_type :: "CustomErrorType option"
  p_status :: "number option"
  p_data :: "(jsstring \<times> jsval) list option"
  p_userMessage :: "jsstring option"
  p_cause :: "jsval option"

record CustomErrorPartialProperties =
  pp_data :: "(jsstring \<times> jsval) list option"
  pp_userMessage :: "jsstring option"

text \<open>\<open>HttpErrorBody\<close> and \<open>HttpErrorResponse\<close> (types); \<open>body_data\<close> is an object or \<open>null\<close>.\<close>

record HttpErrorBody =
  body_code :: jsstring
  body_type :: CustomErrorType
  body_message :: jsstring
  body_data :: jsval

record HttpErrorResponse =
  response_status :: number
  response_body :: HttpErrorBody

subsection \<open>Operators\<close>

text \<open>\<open>a ?? b\<close> on an optional field, and on a field of type \<open>unknown\<close>, where \<open>null\<close> and
  \<open>undefined\<close> can be stored values. \<open>properties?.f\<close> is \<open>Option.bind properties f\<close>.\<close>

definition nullish :: "'a option \<Rightarrow> 'a \<Rightarrow> 'a" where
  "nullish a b = (case a of None \<Rightarrow> b | Some v \<Rightarrow> v)"

definition nullish_unknown :: "jsval option \<Rightarrow> jsval \<Rightarrow> jsval" where
  "nullish_unknown a b =
     (case a of None \<Rightarrow> b | Some JUndefined \<Rightarrow> b | Some JNull \<Rightarrow> b | Some v \<Rightarrow> v)"

text \<open>\<open>{...properties}\<close>: the fields of the bag, none when there is no bag.\<close>

definition spread :: "CustomErrorProperties option \<Rightarrow> CustomErrorProperties" where
  "spread properties =
     (case properties of
        None \<Rightarrow> \<lparr>p_code = None, p_type = None, p_status = None, p_data = None,
                  p_userMessage = None, p_cause = None\<rparr>
      | Some p \<Rightarrow> p)"

subsection \<open>Conversion to string\<close>

fun digits :: "nat \<Rightarrow> jsstring" where
  "digits n = (if n < 10 then [48 + n] else digits (n div 10) @ [48 + n mod 10])"

declare digits.simps [simp del]

text \<open>
  \<open>Number::toString\<close>: \<open>NaN\<close>, \<open>Infinity\<close> and \<open>-Infinity\<close> by name; an integer below
  \<open>2^53\<close> in absolute value by its decimal digits; any other finite number (a fraction,
  or a value from \<open>2^53\<close> on, printed with the shortest digits that read back as the same
  double and in exponent notation from \<open>1e21\<close> on) as the host prints it, the parameter
  \<open>print\<close>.
\<close>

definition Number_toString :: "(rat \<Rightarrow> jsstring) \<Rightarrow> number \<Rightarrow> jsstring" where
  "Number_toString print x =
     (case x of
        NaN \<Rightarrow> str ''NaN''
      | PosInfinity \<Rightarrow> str ''Infinity''
      | NegInfinity \<Rightarrow> str ''-Infinity''
      | Finite q \<Rightarrow>
          if q = of_int \<lfloor>q\<rfloor> \<and> \<bar>q\<bar> < 2 ^ 53
          then (if q < 0 then 45 # digits (nat (- \<lfloor>q\<rfloor>)) else digits (nat \<lfloor>q\<rfloor>))
          else print q)"

fun class_name :: "error_class \<Rightarrow> jsstring" where
  "class_name CustomError = str ''CustomError''"
| "class_name (Warn WarnError) = str ''WarnError''"
| "class_name (Warn BadRequestWarn) = str ''BadRequestWarn''"
| "class_name (Warn UnauthorizedWarn) = str ''UnauthorizedWarn''"
| "class_name (Warn ForbiddenWarn) = str ''ForbiddenWarn''"
| "class_name (Warn NotFoundWarn) = str ''NotFoundWarn''"
| "class_name (Warn ConflictWarn) = str ''ConflictWarn''"
| "class_name (Warn ValidationWarn) = str ''ValidationWarn''"
| "class_name (Warn TooManyRequestsWarn) = str ''TooManyRequestsWarn''"
| "class_name (Warn UnknownRouteWarn) = str ''UnknownRouteWarn''"
| "class_name (Warn AuthWarn) = str ''AuthWarn''"
| "class_name (Exception ExceptionError) = str ''ExceptionError''"
| "class_name (Exception InternalServerError) = str ''InternalServerError''"
| "class_name (Exception DatabaseError) = str ''DatabaseError''"
| "class_name (Exception MailError) = str ''MailError''"
| "class_name (Exception EncryptError) = str ''EncryptError''"
| "class_name (Exception ConfigError) = str ''ConfigError''"
| "class_name (Exception IntegrationError) = str ''IntegrationError''"
| "class_name (Exception TimeoutError) = str ''TimeoutError''"
| "class_name (Exception StorageError) = str ''StorageError''"
| "class_name (Exception NetworkError) = str ''NetworkError''"
| "class_name (Exception LogError) = str ''LogError''"
| "class_name (Exception MemoryError) = str ''MemoryError''"
| "class_name (Exception AuthError) = str ''AuthError''"

text \<open>\<open>CustomError.toString\<close>: \<open>`${this.name} [${this.code}]: ${this.message}`\<close>.\<close>

definition CustomError_toString :: "CustomError_instance \<Rightarrow> jsstring" where
  "CustomError_toString this =
     class_name (name_of this) @ str '' ['' @ code_of this @ str '']: '' @ message_of this"

text \<open>
  \<open>String(value)\<close>, which returns a string or throws. An ordinary object has no
  \<open>Symbol.toPrimitive\<close>, so \<open>toString\<close> is tried and then \<open>valueOf\<close>: when \<open>toString\<close> is
  an own data property it is not callable, and \<open>valueOf\<close> is either an own data property
  or the inherited one, which returns the object itself, so the conversion throws a
  \<open>TypeError\<close>; without an own \<open>toString\<close> the inherited one answers
  \<open>[object Object]\<close>. A native error is printed by \<open>Error.prototype.toString\<close>, an
  instance of \<open>CustomError\<close> by the class's own \<open>toString\<close>.
\<close>

fun String_of :: "(rat \<Rightarrow> jsstring) \<Rightarrow> jsval \<Rightarrow> js_exception + jsstring" where
  "String_of print JUndefined = Inr (str ''undefined'')"
| "String_of print JNull = Inr (str ''null'')"
| "String_of print (JBool b) = Inr (if b then str ''true'' else str ''false'')"
| "String_of print (JNum x) = Inr (Number_toString print x)"
| "String_of print (JStr s) = Inr s"
| "String_of print (JObject kvs) =
     (if map_of kvs (str ''toString'') \<noteq> None then Inl TypeError
      else Inr (str ''[object Object]''))"
| "String_of print (JError n msg) =
     Inr (if n = [] then msg else if msg = [] then n else n @ str '': '' @ msg)"
| "String_of print (JCustom e) = Inr (CustomError_toString e)"
| "String_of print (JOther r) = r"

section \<open>The message normalizer (utils/normalize)\<close>

text \<open>
  The code points that \<open>trim()\<close> strips and that \<open>\s\<close> matches: the white space and line
  terminator code points of the language.
\<close>

definition isWhiteSpace :: "nat \<Rightarrow> bool" where
  "isWhiteSpace c \<longleftrightarrow>
     c \<in> {0x09, 0x0A, 0x0B, 0x0C, 0x0D, 0x20, 0xA0, 0x1680, 0x2028, 0x2029, 0x202F,
          0x205F, 0x3000, 0xFEFF}
     \<or> (0x2000 \<le> c \<and> c \<le> 0x200A)"

definition trim :: "jsstring \<Rightarrow> jsstring" where
  "trim s = rev (dropWhile isWhiteSpace (rev (dropWhile isWhiteSpace s)))"

text \<open>\<open>.replace(/\s+/g, " ")\<close>: every maximal run of white space becomes one space.\<close>

function replace_whitespace_runs :: "jsstring \<Rightarrow> jsstring" where
  "replace_whitespace_runs [] = []"
| "replace_whitespace_runs (c # cs) =
     (if isWhiteSpace c then 0x20 # replace_whitespace_runs (dropWhile isWhiteSpace cs)
      else c # replace_whitespace_runs cs)"
  by pat_completeness auto
termination
  by (relation "measure length") (auto simp: less_Suc_eq_le length_dropWhile_le)

text \<open>
  \<open>.normalize("NFC")\<close> is the host's. A string whose code points are all below U+0300 is
  in NFC already (each of them has combining class 0 and the property NFC_Quick_Check =
  Yes), so the host returns it as it is; for any other string the result is the one of the
  host's table-driven algorithm, the parameter \<open>nfc\<close>.
\<close>

definition normalize_NFC :: "(jsstring \<Rightarrow> jsstring) \<Rightarrow> jsstring \<Rightarrow> jsstring" where
  "normalize_NFC nfc s = (if list_all (\<lambda>c. c < 0x300) s then s else nfc s)"

text \<open>
  The chain \<open>str.trim().replace(/\s+/g, " ").normalize("NFC")\<close> of the normalizer, and the
  normalizer: the placeholder for \<open>null\<close> and \<open>undefined\<close>, else the chain on
  \<open>String(message)\<close>, whose exception, if it throws, is the normalizer's.
\<close>

definition normalized :: "(jsstring \<Rightarrow> jsstring) \<Rightarrow> jsstring \<Rightarrow> jsstring" where
  "normalized nfc s = normalize_NFC nfc (replace_whitespace_runs (trim s))"

fun normalizeErrorMessage ::
  "(jsstring \<Rightarrow> jsstring) \<Rightarrow> (rat \<Rightarrow> jsstring) \<Rightarrow> jsval \<Rightarrow> js_exception + jsstring" where
  "normalizeErrorMessage nfc print JNull = Inr (str ''Erro desconhecido'')"
| "normalizeErrorMessage nfc print JUndefined = Inr (str ''Erro desconhecido'')"
| "normalizeErrorMessage nfc print message =
     (case String_of print message of
        Inl exception \<Rightarrow> Inl exception
      | Inr s \<Rightarrow> Inr (normalized nfc s))"

subsection \<open>White space, word by word\<close>

text \<open>
  What the specification says of the two white space steps, in its own words: leading and
  trailing white space is stripped and every internal run becomes one space, so what
  remains is the words of the string, its maximal runs of code points that are not white
  space, joined by single spaces.
\<close>

function words_of :: "jsstring \<Rightarrow> jsstring list" where
  "words_of [] = []"
| "words_of (c # cs) =
     (if isWhiteSpace c then words_of cs
      else (c # takeWhile (\<lambda>x. \<not> isWhiteSpace x) cs)
             # words_of (dropWhile (\<lambda>x. \<not> isWhiteSpace x) cs))"
  by pat_completeness auto
termination
  by (relation "measure length") (auto simp: less_Suc_eq_le length_dropWhile_le)

fun join_words :: "jsstring list \<Rightarrow> jsstring" where
  "join_words [] = []"
| "join_words [w] = w"
| "join_words (w # ws) = w @ 0x20 # join_words ws"

text \<open>
  Redundant white space: white space at either end, a white space code point other than
  the space, or two white space code points in a row.
\<close>

fun adjacent_whitespace :: "jsstring \<Rightarrow> bool" where
  "adjacent_whitespace (a # b # cs) =
     (isWhiteSpace a \<and> isWhiteSpace b \<or> adjacent_whitespace (b # cs))"
| "adjacent_whitespace cs = False"

definition redundant_whitespace :: "jsstring \<Rightarrow> bool" where
  "redundant_whitespace s \<longleftrightarrow>
     (s \<noteq> [] \<and> (isWhiteSpace (hd s) \<or> isWhiteSpace (last s)))
     \<or> list_ex (\<lambda>c. isWhiteSpace c \<and> c \<noteq> 0x20) s
     \<or> adjacent_whitespace s"

text \<open>The second half of \<open>trim\<close>, on its own.\<close>

definition trim_end :: "jsstring \<Rightarrow> jsstring" where
  "trim_end s = rev (dropWhile isWhiteSpace (rev s))"

section \<open>The base class (modules/custom)\<close>

text \<open>
  The constructor takes a \<open>string\<close> as message, which \<open>String()\<close> returns as it is, so
  the normalizer cannot throw there and gives \<open>normalized nfc message\<close>.
\<close>

definition new_CustomError ::
  "(jsstring \<Rightarrow> jsstring) \<Rightarrow> error_class \<Rightarrow> jsstring \<Rightarrow> CustomErrorProperties option
     \<Rightarrow> CustomError_instance" where
  "new_CustomError nfc new_target message properties =
     (let normalizedMessage = normalized nfc message in
      ErrorObject
        new_target
        normalizedMessage
        (nullish (Option.bind properties p_code) (str ''ERROR''))
        (nullish (Option.bind properties p_type) error)
        (nullish (Option.bind properties p_status) (Finite 500))
        (Some (nullish (Option.bind properties p_userMessage) normalizedMessage))
        (Option.bind properties p_data)
        (Option.bind properties p_cause))"

text \<open>
  \<open>CustomError.from\<close>: an instance of \<open>CustomError\<close> is returned as it is; a native error
  and any other value are wrapped. \<open>err.message || "Erro desconhecido"\<close> replaces the empty
  message.
\<close>

fun CustomError_from ::
  "(jsstring \<Rightarrow> jsstring) \<Rightarrow> jsval \<Rightarrow> CustomErrorProperties option \<Rightarrow> CustomError_instance" where
  "CustomError_from nfc (JCustom err) override = err"
| "CustomError_from nfc (JError n msg) override =
     new_CustomError nfc CustomError (if msg \<noteq> [] then msg else str ''Erro desconhecido'')
       (Some \<lparr>p_code = Some (nullish (Option.bind override p_code) (str ''SYSTEM_ERROR'')),
              p_type = Some (nullish (Option.bind override p_type) error),
              p_status = Some (nullish (Option.bind override p_status) (Finite 500)),
              p_data = Option.bind override p_data,
              p_userMessage = Some (nullish (Option.bind override p_userMessage) msg),
              p_cause = Some (nullish_unknown (Option.bind override p_cause) (JError n msg))\<rparr>)"
| "CustomError_from nfc err override =
     new_CustomError nfc CustomError (str ''Erro desconhecido'')
       (Some \<lparr>p_code = Some (nullish (Option.bind override p_code) (str ''SYSTEM_ERROR'')),
              p_type = Some (nullish (Option.bind override p_type) error),
              p_status = Some (nullish (Option.bind override p_status) (Finite 500)),
              p_data = Some (nullish (Option.bind override p_data) [(str ''error'', err)]),
              p_userMessage =
                Some (nullish (Option.bind override p_userMessage) (str ''Erro desconhecido'')),
              p_cause = Option.bind override p_cause\<rparr>)"

section \<open>The families (modules/warn, modules/exception)\<close>

text \<open>
  A constructor either completes, and \<open>new\<close> gives the instance, or throws.
  \<open>throw new C(...)\<close> evaluates \<open>new C(...)\<close> and throws the instance it gives, or lets
  through what it throws itself: \<open>Throws c\<close>, with \<open>c\<close> the construction by \<open>C\<close>. The
  object that comes out, returned or thrown, is the \<open>outcome\<close>; each \<open>throw new C(...)\<close> on
  the way is a redirection.
\<close>

datatype construction = Completes CustomError_instance | Throws construction

fun outcome :: "construction \<Rightarrow> CustomError_instance" where
  "outcome (Completes e) = e"
| "outcome (Throws c) = outcome c"

fun redirections :: "construction \<Rightarrow> nat" where
  "redirections (Completes e) = 0"
| "redirections (Throws c) = Suc (redirections c)"

function
  new_WarnError ::
    "(jsstring \<Rightarrow> jsstring) \<Rightarrow> warn_class \<Rightarrow> jsstring \<Rightarrow> CustomErrorProperties option
       \<Rightarrow> construction"
  and new_ExceptionError ::
    "(jsstring \<Rightarrow> jsstring) \<Rightarrow> exception_class \<Rightarrow> jsstring \<Rightarrow> CustomErrorProperties option
       \<Rightarrow> construction"
where
  "new_WarnError nfc new_target message properties =
     (let status = nullish (Option.bind properties p_status) (Finite 400) in
      if lt status 400 \<or> gt status 499 then
        (if gt status 499 \<and> lt status 600
         then Throws (new_ExceptionError nfc ExceptionError message properties)
         else Throws (Completes (new_CustomError nfc CustomError message properties)))
      else
        Completes (new_CustomError nfc (Warn new_target) message
          (Some ((spread properties)
            \<lparr>p_type := Some warn,
             p_status := Some status,
             p_code := Some (nullish (Option.bind properties p_code) (str ''WARN'')),
             p_userMessage := Some (nullish (Option.bind properties p_userMessage) message)\<rparr>))))"
| "new_ExceptionError nfc new_target message properties =
     (let status = nullish (Option.bind properties p_status) (Finite 500) in
      if lt status 500 \<or> gt status 599 then
        (if ge status 400 \<and> le status 499
         then Throws (new_WarnError nfc WarnError message properties)
         else Throws (Completes (new_CustomError nfc CustomError message properties)))
      else
        Completes (new_CustomError nfc (Exception new_target) message
          (Some ((spread properties)
            \<lparr>p_type := Some error,
             p_status := Some status,
             p_code := Some (nullish (Option.bind properties p_code) (str ''ERROR'')),
             p_userMessage := Some (nullish (Option.bind properties p_userMessage) message)\<rparr>))))"
  by pat_completeness auto
termination
  by (relation "measure (\<lambda>x. case x of
        Inl (nfc, t, m, p) \<Rightarrow>
          (let s = nullish (Option.bind p p_status) (Finite 400)
           in if gt s 499 \<and> lt s 600 then 1 else 0)
      | Inr (nfc, t, m, p) \<Rightarrow>
          (let s = nullish (Option.bind p p_status) (Finite 500)
           in if ge s 400 \<and> le s 499 then 1 else 0))")
    (auto simp: nullish_def split: option.splits elim: lt.elims gt.elims le.elims ge.elims)

declare new_WarnError.simps [simp del] new_ExceptionError.simps [simp del]

subsection \<open>The named subclasses\<close>

text \<open>
  Each subclass calls \<open>super\<close>, the constructor of its family run with \<open>new.target\<close> the
  subclass, with its own code and status and with \<open>data\<close> and \<open>userMessage\<close> of the partial
  properties (\<open>InternalServerError\<close> spreads them, the others destructure them).
\<close>

definition new_BadRequestWarn ::
  "(jsstring \<Rightarrow> jsstring) \<Rightarrow> jsstring option \<Rightarrow> CustomErrorPartialProperties option
     \<Rightarrow> construction" where
  "new_BadRequestWarn nfc message properties =
     new_WarnError nfc BadRequestWarn
       (nullish message (str ''Requisi'' @ [0xE7, 0xE3] @ str ''o inv''
          @ [0xE1] @ str ''lida''))
       (Some \<lparr>p_code = Some (str ''BAD_REQUEST_WARN''), p_type = None, p_status = Some (Finite 400),
              p_data = Option.bind properties pp_data,
              p_userMessage = Option.bind properties pp_userMessage,
              p_cause = None\<rparr>)"

definition new_UnauthorizedWarn ::
  "(jsstring \<Rightarrow> jsstring) \<Rightarrow> jsstring option \<Rightarrow> CustomErrorPartialProperties option
     \<Rightarrow> construction" where
  "new_UnauthorizedWarn nfc message properties =
     new_WarnError nfc UnauthorizedWarn
       (nullish message (str ''N'' @ [0xE3] @ str ''o autorizado''))
       (Some \<lparr>p_code = Some (str ''UNAUTHORIZED_WARN''), p_type = None, p_status = Some (Finite 401),
              p_data = Option.bind properties pp_data,
              p_userMessage = Option.bind properties pp_userMessage,
              p_cause = None\<rparr>)"

definition new_ForbiddenWarn ::
  "(jsstring \<Rightarrow> jsstring) \<Rightarrow> jsstring option \<Rightarrow> CustomErrorPartialProperties option
     \<Rightarrow> construction" where
  "new_ForbiddenWarn nfc message properties =
     new_WarnError nfc ForbiddenWarn (nullish message (str ''Acesso negado''))
       (Some \<lparr>p_code = Some (str ''FORBIDDEN_WARN''), p_type = None, p_status = Some (Finite 403),
              p_data = Option.bind properties pp_data,
              p_userMessage = Option.bind properties pp_userMessage,
              p_cause = None\<rparr>)"

definition new_NotFoundWarn ::
  "(jsstring \<Rightarrow> jsstring) \<Rightarrow> jsstring option \<Rightarrow> CustomErrorPartialProperties option
     \<Rightarrow> construction" where
  "new_NotFoundWarn nfc message properties =
     new_WarnError nfc NotFoundWarn
       (nullish message (str ''Recurso n'' @ [0xE3] @ str ''o encontrado''))
       (Some \<lparr>p_code = Some (str ''NOT_FOUND_WARN''), p_type = None, p_status = Some (Finite 404),
              p_data = Option.bind properties pp_data,
              p_userMessage = Option.bind properties pp_userMessage,
              p_cause = None\<rparr>)"

definition new_ConflictWarn ::
  "(jsstring \<Rightarrow> jsstring) \<Rightarrow> jsstring option \<Rightarrow> CustomErrorPartialProperties option
     \<Rightarrow> construction" where
  "new_ConflictWarn nfc message properties =
     new_WarnError nfc ConflictWarn (nullish message (str ''Conflito de estado''))
       (Some \<lparr>p_code = Some (str ''CONFLICT_WARN''), p_type = None, p_status = Some (Finite 409),
              p_data = Option.bind properties pp_data,
              p_userMessage = Option.bind properties pp_userMessage,
              p_cause = None\<rparr>)"

definition new_ValidationWarn ::
  "(jsstring \<Rightarrow> jsstring) \<Rightarrow> jsstring option \<Rightarrow> CustomErrorPartialProperties option
     \<Rightarrow> construction" where
  "new_ValidationWarn nfc message properties =
     new_WarnError nfc ValidationWarn
       (nullish message (str ''Falha de valida'' @ [0xE7, 0xE3] @ str ''o''))
       (Some \<lparr>p_code = Some (str ''VALIDATION_WARN''), p_type = None, p_status = Some (Finite 422),
              p_data = Option.bind properties pp_data,
              p_userMessage = Option.bind properties pp_userMessage,
              p_cause = None\<rparr>)"

definition new_TooManyRequestsWarn ::
  "(jsstring \<Rightarrow> jsstring) \<Rightarrow> jsstring option \<Rightarrow> CustomErrorPartialProperties option
     \<Rightarrow> construction" where
  "new_TooManyRequestsWarn nfc message properties =
     new_WarnError nfc TooManyRequestsWarn
       (nullish message (str ''Muitas requisi'' @ [0xE7, 0xF5] @ str ''es''))
       (Some \<lparr>p_code = Some (str ''TOO_MANY_REQUESTS_WARN''), p_type = None, p_status = Some (Finite 429),
              p_data = Option.bind properties pp_data,
              p_userMessage = Option.bind properties pp_userMessage,
              p_cause = None\<rparr>)"

definition new_UnknownRouteWarn ::
  "(jsstring \<Rightarrow> jsstring) \<Rightarrow> jsstring option \<Rightarrow> CustomErrorPartialProperties option
     \<Rightarrow> construction" where
  "new_UnknownRouteWarn nfc message properties =
     new_WarnError nfc UnknownRouteWarn
       (nullish message (str ''Rota n'' @ [0xE3] @ str ''o encontrada''))
       (Some \<lparr>p_code = Some (str ''ROUTE_WARN''), p_type = None, p_status = Some (Finite 404),
              p_data = Option.bind properties pp_data,
              p_userMessage = Option.bind properties pp_userMessage,
              p_cause = None\<rparr>)"

definition new_AuthWarn ::
  "(jsstring \<Rightarrow> jsstring) \<Rightarrow> jsstring option \<Rightarrow> CustomErrorPartialProperties option
     \<Rightarrow> construction" where
  "new_AuthWarn nfc message properties =
     new_WarnError nfc AuthWarn
       (nullish message (str ''Erro de autentica'' @ [0xE7, 0xE3]
          @ str ''o/valida'' @ [0xE7, 0xE3] @ str ''o de token''))
       (Some \<lparr>p_code = Some (str ''AUTH_WARN''), p_type = None, p_status = Some (Finite 401),
              p_data = Option.bind properties pp_data,
              p_userMessage = Option.bind properties pp_userMessage,
              p_cause = None\<rparr>)"

definition new_InternalServerError ::
  "(jsstring \<Rightarrow> jsstring) \<Rightarrow> jsstring option \<Rightarrow> CustomErrorPartialProperties option
     \<Rightarrow> construction" where
  "new_InternalServerError nfc message properties =
     new_ExceptionError nfc InternalServerError
       (nullish message (str ''Erro interno do servidor''))
       (Some \<lparr>p_code = Some (str ''SYSTEM_ERROR''), p_type = None, p_status = Some (Finite 500),
              p_data = Option.bind properties pp_data,
              p_userMessage = Option.bind properties pp_userMessage,
              p_cause = None\<rparr>)"

definition new_DatabaseError ::
  "(jsstring \<Rightarrow> jsstring) \<Rightarrow> jsstring option \<Rightarrow> CustomErrorPartialProperties option
     \<Rightarrow> construction" where
  "new_DatabaseError nfc message properties =
     new_ExceptionError nfc DatabaseError (nullish message (str ''Erro no banco de dados''))
       (Some \<lparr>p_code = Some (str ''DATABASE_ERROR''), p_type = None, p_status = Some (Finite 500),
              p_data = Option.bind properties pp_data,
              p_userMessage = Option.bind properties pp_userMessage,
              p_cause = None\<rparr>)"

definition new_MailError ::
  "(jsstring \<Rightarrow> jsstring) \<Rightarrow> jsstring option \<Rightarrow> CustomErrorPartialProperties option
     \<Rightarrow> construction" where
  "new_MailError nfc message properties =
     new_ExceptionError nfc MailError (nullish message (str ''Erro ao enviar e-mail''))
       (Some \<lparr>p_code = Some (str ''MAIL_ERROR''), p_type = None, p_status = Some (Finite 502),
              p_data = Option.bind properties pp_data,
              p_userMessage = Option.bind properties pp_userMessage,
              p_cause = None\<rparr>)"

definition new_EncryptError ::
  "(jsstring \<Rightarrow> jsstring) \<Rightarrow> jsstring option \<Rightarrow> CustomErrorPartialProperties option
     \<Rightarrow> construction" where
  "new_EncryptError nfc message properties =
     new_ExceptionError nfc EncryptError (nullish message (str ''Erro ao criptografar valor''))
       (Some \<lparr>p_code = Some (str ''ENCRYPT_ERROR''), p_type = None, p_status = Some (Finite 500),
              p_data = Option.bind properties pp_data,
              p_userMessage = Option.bind properties pp_userMessage,
              p_cause = None\<rparr>)"

definition new_ConfigError ::
  "(jsstring \<Rightarrow> jsstring) \<Rightarrow> jsstring option \<Rightarrow> CustomErrorPartialProperties option
     \<Rightarrow> construction" where
  "new_ConfigError nfc message properties =
     new_ExceptionError nfc ConfigError
       (nullish message (str ''Erro ao carregar configura'' @ [0xE7, 0xF5] @ str ''es''))
       (Some \<lparr>p_code = Some (str ''CONFIG_ERROR''), p_type = None, p_status = Some (Finite 500),
              p_data = Option.bind properties pp_data,
              p_userMessage = Option.bind properties pp_userMessage,
              p_cause = None\<rparr>)"

definition new_IntegrationError ::
  "(jsstring \<Rightarrow> jsstring) \<Rightarrow> jsstring option \<Rightarrow> CustomErrorPartialProperties option
     \<Rightarrow> construction" where
  "new_IntegrationError nfc message properties =
     new_ExceptionError nfc IntegrationError
       (nullish message (str ''Erro na integra'' @ [0xE7, 0xE3]
          @ str ''o com servi'' @ [0xE7] @ str ''os externos''))
       (Some \<lparr>p_code = Some (str ''INTEGRATION_ERROR''), p_type = None, p_status = Some (Finite 502),
              p_data = Option.bind properties pp_data,
              p_userMessage = Option.bind properties pp_userMessage,
              p_cause = None\<rparr>)"

definition new_TimeoutError ::
  "(jsstring \<Rightarrow> jsstring) \<Rightarrow> jsstring option \<Rightarrow> CustomErrorPartialProperties option
     \<Rightarrow> construction" where
  "new_TimeoutError nfc message properties =
     new_ExceptionError nfc TimeoutError (nullish message (str ''Tempo limite excedido''))
       (Some \<lparr>p_code = Some (str ''TIMEOUT_ERROR''), p_type = None, p_status = Some (Finite 504),
              p_data = Option.bind properties pp_data,
              p_userMessage = Option.bind properties pp_userMessage,
              p_cause = None\<rparr>)"

definition new_StorageError ::
  "(jsstring \<Rightarrow> jsstring) \<Rightarrow> jsstring option \<Rightarrow> CustomErrorPartialProperties option
     \<Rightarrow> construction" where
  "new_StorageError nfc message properties =
     new_ExceptionError nfc StorageError (nullish message (str ''Erro de armazenamento''))
       (Some \<lparr>p_code = Some (str ''STORAGE_ERROR''), p_type = None, p_status = Some (Finite 507),
              p_data = Option.bind properties pp_data,
              p_userMessage = Option.bind properties pp_userMessage,
              p_cause = None\<rparr>)"

definition new_NetworkError ::
  "(jsstring \<Rightarrow> jsstring) \<Rightarrow> jsstring option \<Rightarrow> CustomErrorPartialProperties option
     \<Rightarrow> construction" where
  "new_NetworkError nfc message properties =
     new_ExceptionError nfc NetworkError (nullish message (str ''Erro de rede''))
       (Some \<lparr>p_code = Some (str ''NETWORK_ERROR''), p_type = None, p_status = Some (Finite 503),
              p_data = Option.bind properties pp_data,
              p_userMessage = Option.bind properties pp_userMessage,
              p_cause = None\<rparr>)"

definition new_LogError ::
  "(jsstring \<Rightarrow> jsstring) \<Rightarrow> jsstring option \<Rightarrow> CustomErrorPartialProperties option
     \<Rightarrow> construction" where
  "new_LogError nfc message properties =
     new_ExceptionError nfc LogError (nullish message (str ''Erro de log''))
       (Some \<lparr>p_code = Some (str ''LOG_ERROR''), p_type = None, p_status = Some (Finite 500),
              p_data = Option.bind properties pp_data,
              p_userMessage = Option.bind properties pp_userMessage,
              p_cause = None\<rparr>)"

definition new_MemoryError ::
  "(jsstring \<Rightarrow> jsstring) \<Rightarrow> jsstring option \<Rightarrow> CustomErrorPartialProperties option
     \<Rightarrow> construction" where
  "new_MemoryError nfc message properties =
     new_ExceptionError nfc MemoryError
       (nullish message (str ''Erro de mem'' @ [0xF3] @ str ''ria''))
       (Some \<lparr>p_code = Some (str ''MEMORY_ERROR''), p_type = None, p_status = Some (Finite 507),
              p_data = Option.bind properties pp_data,
              p_userMessage = Option.bind properties pp_userMessage,
              p_cause = None\<rparr>)"

definition new_AuthError ::
  "(jsstring \<Rightarrow> jsstring) \<Rightarrow> jsstring option \<Rightarrow> CustomErrorPartialProperties option
     \<Rightarrow> construction" where
  "new_AuthError nfc message properties =
     new_ExceptionError nfc AuthError
       (nullish message (str ''Erro de autentica'' @ [0xE7, 0xE3]
          @ str ''o/valida'' @ [0xE7, 0xE3] @ str ''o de token''))
       (Some \<lparr>p_code = Some (str ''AUTH_ERROR''), p_type = None, p_status = Some (Finite 500),
              p_data = Option.bind properties pp_data,
              p_userMessage = Option.bind properties pp_userMessage,
              p_cause = None\<rparr>)"

text \<open>The constructors of the subclasses of each family, in the order of the modules.\<close>

definition warn_subclasses ::
  "(jsstring \<Rightarrow> jsstring)
     \<Rightarrow> (jsstring option \<Rightarrow> CustomErrorPartialProperties option \<Rightarrow> construction) list" where
  "warn_subclasses nfc =
    [new_BadRequestWarn nfc, new_UnauthorizedWarn nfc, new_ForbiddenWarn nfc,
     new_NotFoundWarn nfc, new_ConflictWarn nfc, new_ValidationWarn nfc,
     new_TooManyRequestsWarn nfc, new_UnknownRouteWarn nfc, new_AuthWarn nfc]"

definition exception_subclasses ::
  "(jsstring \<Rightarrow> jsstring)
     \<Rightarrow> (jsstring option \<Rightarrow> CustomErrorPartialProperties option \<Rightarrow> construction) list" where
  "exception_subclasses nfc =
    [new_InternalServerError nfc, new_DatabaseError nfc, new_MailError nfc,
     new_EncryptError nfc, new_ConfigError nfc, new_IntegrationError nfc,
     new_TimeoutError nfc, new_StorageError nfc, new_NetworkError nfc, new_LogError nfc,
     new_MemoryError nfc, new_AuthError nfc]"

text \<open>\<open>toHttp\<close>, the same method in both families.\<close>

definition WarnError_toHttp :: "CustomError_instance \<Rightarrow> HttpErrorResponse" where
  "WarnError_toHttp this =
     (let body = \<lparr>body_code = code_of this,
                  body_type = type_of this,
                  body_message = nullish (userMessage_of this) (message_of this),
                  body_data = (case data_of this of Some d \<Rightarrow> JObject d | None \<Rightarrow> JNull)\<rparr>
      in \<lparr>response_status = status_of this, response_body = body\<rparr>)"

definition ExceptionError_toHttp :: "CustomError_instance \<Rightarrow> HttpErrorResponse" where
  "ExceptionError_toHttp this =
     (let body = \<lparr>body_code = code_of this,
                  body_type = type_of this,
                  body_message = nullish (userMessage_of this) (message_of this),
                  body_data = (case data_of this of Some d \<Rightarrow> JObject d | None \<Rightarrow> JNull)\<rparr>
      in \<lparr>response_status = status_of this, response_body = body\<rparr>)"

section \<open>The instances a caller can obtain\<close>

text \<open>\<open>err instanceof CustomError\<close>.\<close>

fun instanceof_CustomError :: "jsval \<Rightarrow> bool" where
  "instanceof_CustomError (JCustom e) = True"
| "instanceof_CustomError v = False"

text \<open>\<open>err instanceof Error\<close> for a value that is not an instance of \<open>CustomError\<close>.\<close>

fun instanceof_native_Error :: "jsval \<Rightarrow> bool" where
  "instanceof_native_Error (JError n msg) = True"
| "instanceof_native_Error v = False"

text \<open>
  The error objects that the exported constructors and \<open>CustomError.from\<close> produce, returned
  or thrown: \<open>new\<close> on the base class, on the two family classes and on their subclasses, and
  \<open>from\<close> on a value that is no instance yet or on an instance so produced.
\<close>

inductive_set constructed :: "(jsstring \<Rightarrow> jsstring) \<Rightarrow> CustomError_instance set"
  for nfc :: "jsstring \<Rightarrow> jsstring"
where
  by_CustomError: "new_CustomError nfc CustomError message properties \<in> constructed nfc"
| by_WarnError: "outcome (new_WarnError nfc WarnError message properties) \<in> constructed nfc"
| by_ExceptionError:
    "outcome (new_ExceptionError nfc ExceptionError message properties) \<in> constructed nfc"
| by_warn_subclass:
    "new \<in> set (warn_subclasses nfc) \<Longrightarrow> outcome (new optional_message partial) \<in> constructed nfc"
| by_exception_subclass:
    "new \<in> set (exception_subclasses nfc)
       \<Longrightarrow> outcome (new optional_message partial) \<in> constructed nfc"
| by_from:
    "\<not> instanceof_CustomError err \<Longrightarrow> CustomError_from nfc err override \<in> constructed nfc"
| by_from_instance:
    "e \<in> constructed nfc \<Longrightarrow> CustomError_from nfc (JCustom e) override \<in> constructed nfc"

text \<open>The bag \<open>{ status: s }\<close> of the examples.\<close>

definition only_status :: "number \<Rightarrow> CustomErrorProperties option" where
  "only_status s =
     Some \<lparr>p_code = None, p_type = None, p_status = Some s, p_data = None,
           p_userMessage = None, p_cause = None\<rparr>"

section \<open>Construction, case by case\<close>

lemma fields_new_CustomError [simp]:
  "name_of (new_CustomError nfc c m p) = c"
  "message_of (new_CustomError nfc c m p) = normalized nfc m"
  "code_of (new_CustomError nfc c m p) = nullish (Option.bind p p_code) (str ''ERROR'')"
  "type_of (new_CustomError nfc c m p) = nullish (Option.bind p p_type) error"
  "status_of (new_CustomError nfc c m p) = nullish (Option.bind p p_status) (Finite 500)"
  "userMessage_of (new_CustomError nfc c m p) =
     Some (nullish (Option.bind p p_userMessage) (normalized nfc m))"
  "data_of (new_CustomError nfc c m p) = Option.bind p p_data"
  "cause_of (new_CustomError nfc c m p) = Option.bind p p_cause"
  by (simp_all add: new_CustomError_def Let_def)

lemma nullish_simps [simp]:
  "nullish None b = b"
  "nullish (Some a) b = a"
  by (simp_all add: nullish_def)



lemma gt_not_NaN: "gt x k \<Longrightarrow> x \<noteq> NaN"
  by auto

text \<open>
  The status that the constructor of \<open>WarnError\<close> reads is the one that the constructor
  of \<open>ExceptionError\<close> reads, unless the bag has none.
\<close>

lemma status_default:
  "nullish (Option.bind p p_status) (Finite 400) \<noteq> Finite 400
     \<or> nullish (Option.bind p p_status) (Finite 500) \<noteq> Finite 500
   \<Longrightarrow> nullish (Option.bind p p_status) (Finite 500) =
       nullish (Option.bind p p_status) (Finite 400)"
  by (cases "Option.bind p p_status") auto

lemma new_WarnError_completes:
  assumes "\<not> lt (nullish (Option.bind p p_status) (Finite 400)) 400"
    and "\<not> gt (nullish (Option.bind p p_status) (Finite 400)) 499"
  shows "new_WarnError nfc t m p =
     Completes (new_CustomError nfc (Warn t) m
          (Some ((spread p)
            \<lparr>p_type := Some warn,
             p_status := Some (nullish (Option.bind p p_status) (Finite 400)),
             p_code := Some (nullish (Option.bind p p_code) (str ''WARN'')),
             p_userMessage := Some (nullish (Option.bind p p_userMessage) m)\<rparr>)))"
  using assms by (subst new_WarnError.simps) (simp add: Let_def)

lemma new_ExceptionError_completes:
  assumes "\<not> lt (nullish (Option.bind p p_status) (Finite 500)) 500"
    and "\<not> gt (nullish (Option.bind p p_status) (Finite 500)) 599"
  shows "new_ExceptionError nfc t m p =
     Completes (new_CustomError nfc (Exception t) m
          (Some ((spread p)
            \<lparr>p_type := Some error,
             p_status := Some (nullish (Option.bind p p_status) (Finite 500)),
             p_code := Some (nullish (Option.bind p p_code) (str ''ERROR'')),
             p_userMessage := Some (nullish (Option.bind p p_userMessage) m)\<rparr>)))"
  using assms by (subst new_ExceptionError.simps) (simp add: Let_def)

lemma new_WarnError_neutral:
  assumes "lt (nullish (Option.bind p p_status) (Finite 400)) 400
         \<or> ge (nullish (Option.bind p p_status) (Finite 400)) 600"
  shows "new_WarnError nfc t m p = Throws (Completes (new_CustomError nfc CustomError m p))"
  using assms
  by (subst new_WarnError.simps)
    (cases "nullish (Option.bind p p_status) (Finite 400)"; auto simp add: Let_def)

lemma new_ExceptionError_neutral:
  assumes "lt (nullish (Option.bind p p_status) (Finite 500)) 400
         \<or> gt (nullish (Option.bind p p_status) (Finite 500)) 499
             \<and> lt (nullish (Option.bind p p_status) (Finite 500)) 500
         \<or> gt (nullish (Option.bind p p_status) (Finite 500)) 599"
  shows "new_ExceptionError nfc t m p = Throws (Completes (new_CustomError nfc CustomError m p))"
  using assms
  by (subst new_ExceptionError.simps)
    (cases "nullish (Option.bind p p_status) (Finite 500)"; auto simp add: Let_def)

lemma new_WarnError_to_ExceptionError:
  assumes "gt (nullish (Option.bind p p_status) (Finite 400)) 499"
    and "lt (nullish (Option.bind p p_status) (Finite 400)) 600"
  shows "new_WarnError nfc t m p = Throws (new_ExceptionError nfc ExceptionError m p)"
    and "nullish (Option.bind p p_status) (Finite 500) =
         nullish (Option.bind p p_status) (Finite 400)"
proof -
  show "new_WarnError nfc t m p = Throws (new_ExceptionError nfc ExceptionError m p)"
    using assms by (subst new_WarnError.simps) (simp add: Let_def)
  show "nullish (Option.bind p p_status) (Finite 500) =
         nullish (Option.bind p p_status) (Finite 400)"
    using assms(1) by (intro status_default) auto
qed

lemma new_ExceptionError_to_WarnError:
  assumes "ge (nullish (Option.bind p p_status) (Finite 500)) 400"
    and "le (nullish (Option.bind p p_status) (Finite 500)) 499"
  shows "new_ExceptionError nfc t m p = Throws (new_WarnError nfc WarnError m p)"
    and "nullish (Option.bind p p_status) (Finite 400) =
         nullish (Option.bind p p_status) (Finite 500)"
proof -
  show "new_ExceptionError nfc t m p = Throws (new_WarnError nfc WarnError m p)"
    using assms
    by (subst new_ExceptionError.simps)
      (cases "nullish (Option.bind p p_status) (Finite 500)"; auto simp add: Let_def)
  show "nullish (Option.bind p p_status) (Finite 400) =
         nullish (Option.bind p p_status) (Finite 500)"
    using assms(2) by (intro status_default [symmetric]) auto
qed

lemma new_WarnError_redirected:
  assumes "ge (nullish (Option.bind p p_status) (Finite 400)) 500"
    and "le (nullish (Option.bind p p_status) (Finite 400)) 599"
  shows "new_WarnError nfc t m p =
     Throws (Completes (new_CustomError nfc (Exception ExceptionError) m
          (Some ((spread p)
            \<lparr>p_type := Some error,
             p_status := Some (nullish (Option.bind p p_status) (Finite 400)),
             p_code := Some (nullish (Option.bind p p_code) (str ''ERROR'')),
             p_userMessage := Some (nullish (Option.bind p p_userMessage) m)\<rparr>))))"
proof -
  have r: "gt (nullish (Option.bind p p_status) (Finite 400)) 499"
    "lt (nullish (Option.bind p p_status) (Finite 400)) 600"
    using assms by (cases "nullish (Option.bind p p_status) (Finite 400)"; auto)+
  note w = new_WarnError_to_ExceptionError [OF r]
  have "\<not> lt (nullish (Option.bind p p_status) (Finite 500)) 500"
    "\<not> gt (nullish (Option.bind p p_status) (Finite 500)) 599"
    using assms unfolding w(2)
    by (cases "nullish (Option.bind p p_status) (Finite 400)"; auto)+
  from new_ExceptionError_completes [OF this] w show ?thesis by simp
qed

lemma new_WarnError_twice:
  assumes "gt (nullish (Option.bind p p_status) (Finite 400)) 499
             \<and> lt (nullish (Option.bind p p_status) (Finite 400)) 500
         \<or> gt (nullish (Option.bind p p_status) (Finite 400)) 599
             \<and> lt (nullish (Option.bind p p_status) (Finite 400)) 600"
  shows "new_WarnError nfc t m p =
     Throws (Throws (Completes (new_CustomError nfc CustomError m p)))"
proof -
  have r: "gt (nullish (Option.bind p p_status) (Finite 400)) 499"
    "lt (nullish (Option.bind p p_status) (Finite 400)) 600"
    using assms by (cases "nullish (Option.bind p p_status) (Finite 400)"; auto)+
  note w = new_WarnError_to_ExceptionError [OF r]
  have "lt (nullish (Option.bind p p_status) (Finite 500)) 400
         \<or> gt (nullish (Option.bind p p_status) (Finite 500)) 499
             \<and> lt (nullish (Option.bind p p_status) (Finite 500)) 500
         \<or> gt (nullish (Option.bind p p_status) (Finite 500)) 599"
    using assms unfolding w(2) by auto
  from new_ExceptionError_neutral [OF this] w show ?thesis by simp
qed

lemma new_ExceptionError_redirected:
  assumes "ge (nullish (Option.bind p p_status) (Finite 500)) 400"
    and "le (nullish (Option.bind p p_status) (Finite 500)) 499"
  shows "new_ExceptionError nfc t m p =
     Throws (Completes (new_CustomError nfc (Warn WarnError) m
          (Some ((spread p)
            \<lparr>p_type := Some warn,
             p_status := Some (nullish (Option.bind p p_status) (Finite 500)),
             p_code := Some (nullish (Option.bind p p_code) (str ''WARN'')),
             p_userMessage := Some (nullish (Option.bind p p_userMessage) m)\<rparr>))))"
proof -
  note e = new_ExceptionError_to_WarnError [OF assms]
  have "\<not> lt (nullish (Option.bind p p_status) (Finite 400)) 400"
    "\<not> gt (nullish (Option.bind p p_status) (Finite 400)) 499"
    using assms unfolding e(2)
    by (cases "nullish (Option.bind p p_status) (Finite 500)"; auto)+
  from new_WarnError_completes [OF this] e show ?thesis by simp
qed

text \<open>The ways each family constructor can go, by the status it reads.\<close>

lemma new_WarnError_cases:
  obtains
    (completes) "\<not> lt (nullish (Option.bind p p_status) (Finite 400)) 400"
      "\<not> gt (nullish (Option.bind p p_status) (Finite 400)) 499"
  | (server) "ge (nullish (Option.bind p p_status) (Finite 400)) 500"
      "le (nullish (Option.bind p p_status) (Finite 400)) 599"
  | (twice) "gt (nullish (Option.bind p p_status) (Finite 400)) 499
             \<and> lt (nullish (Option.bind p p_status) (Finite 400)) 500
         \<or> gt (nullish (Option.bind p p_status) (Finite 400)) 599
             \<and> lt (nullish (Option.bind p p_status) (Finite 400)) 600"
  | (neutral) "lt (nullish (Option.bind p p_status) (Finite 400)) 400
         \<or> ge (nullish (Option.bind p p_status) (Finite 400)) 600"
  by (cases "nullish (Option.bind p p_status) (Finite 400)") (auto, linarith)

lemma new_ExceptionError_cases:
  obtains
    (completes) "\<not> lt (nullish (Option.bind p p_status) (Finite 500)) 500"
      "\<not> gt (nullish (Option.bind p p_status) (Finite 500)) 599"
  | (client) "ge (nullish (Option.bind p p_status) (Finite 500)) 400"
      "le (nullish (Option.bind p p_status) (Finite 500)) 499"
  | (neutral) "lt (nullish (Option.bind p p_status) (Finite 500)) 400
         \<or> gt (nullish (Option.bind p p_status) (Finite 500)) 499
             \<and> lt (nullish (Option.bind p p_status) (Finite 500)) 500
         \<or> gt (nullish (Option.bind p p_status) (Finite 500)) 599"
  by (cases "nullish (Option.bind p p_status) (Finite 500)") (auto, linarith)

lemma new_WarnError_fixed:
  "\<not> lt s 400 \<Longrightarrow> \<not> gt s 499 \<Longrightarrow>
   new_WarnError nfc t m
     (Some \<lparr>p_code = Some cd, p_type = None, p_status = Some s, p_data = d,
            p_userMessage = u, p_cause = None\<rparr>) =
   Completes (ErrorObject (Warn t) (normalized nfc m) cd warn s (Some (nullish u m)) d None)"
  by (subst new_WarnError_completes) (simp_all add: new_CustomError_def spread_def)

lemma new_ExceptionError_fixed:
  "\<not> lt s 500 \<Longrightarrow> \<not> gt s 599 \<Longrightarrow>
   new_ExceptionError nfc t m
     (Some \<lparr>p_code = Some cd, p_type = None, p_status = Some s, p_data = d,
            p_userMessage = u, p_cause = None\<rparr>) =
   Completes (ErrorObject (Exception t) (normalized nfc m) cd error s (Some (nullish u m)) d None)"
  by (subst new_ExceptionError_completes) (simp_all add: new_CustomError_def spread_def)

lemmas warn_subclass_defs =
  new_BadRequestWarn_def new_UnauthorizedWarn_def new_ForbiddenWarn_def
  new_NotFoundWarn_def new_ConflictWarn_def new_ValidationWarn_def
  new_TooManyRequestsWarn_def new_UnknownRouteWarn_def new_AuthWarn_def

lemmas exception_subclass_defs =
  new_InternalServerError_def new_DatabaseError_def new_MailError_def new_EncryptError_def
  new_ConfigError_def new_IntegrationError_def new_TimeoutError_def new_StorageError_def
  new_NetworkError_def new_LogError_def new_MemoryError_def new_AuthError_def

lemma warn_subclass_constructs:
  assumes "new \<in> set (warn_subclasses nfc)"
  shows "\<exists>c d cd s. new om pp =
      Completes (ErrorObject (Warn c) (normalized nfc (nullish om d)) cd warn s
            (Some (nullish (Option.bind pp pp_userMessage) (nullish om d)))
            (Option.bind pp pp_data) None)
      \<and> ge s 400 \<and> le s 499"
proof -
  from assms consider "new = new_BadRequestWarn nfc" | "new = new_UnauthorizedWarn nfc"
    | "new = new_ForbiddenWarn nfc" | "new = new_NotFoundWarn nfc"
    | "new = new_ConflictWarn nfc" | "new = new_ValidationWarn nfc"
    | "new = new_TooManyRequestsWarn nfc" | "new = new_UnknownRouteWarn nfc"
    | "new = new_AuthWarn nfc"
    by (auto simp: warn_subclasses_def)
  then show ?thesis
  proof cases
    case 1
    have "ge (Finite 400) 400 \<and> le (Finite 400) 499" by simp
    then show ?thesis unfolding 1 new_BadRequestWarn_def
      by (subst new_WarnError_fixed) (simp, simp, blast)
  next
    case 2
    have "ge (Finite 401) 400 \<and> le (Finite 401) 499" by simp
    then show ?thesis unfolding 2 new_UnauthorizedWarn_def
      by (subst new_WarnError_fixed) (simp, simp, blast)
  next
    case 3
    have "ge (Finite 403) 400 \<and> le (Finite 403) 499" by simp
    then show ?thesis unfolding 3 new_ForbiddenWarn_def
      by (subst new_WarnError_fixed) (simp, simp, blast)
  next
    case 4
    have "ge (Finite 404) 400 \<and> le (Finite 404) 499" by simp
    then show ?thesis unfolding 4 new_NotFoundWarn_def
      by (subst new_WarnError_fixed) (simp, simp, blast)
  next
    case 5
    have "ge (Finite 409) 400 \<and> le (Finite 409) 499" by simp
    then show ?thesis unfolding 5 new_ConflictWarn_def
      by (subst new_WarnError_fixed) (simp, simp, blast)
  next
    case 6
    have "ge (Finite 422) 400 \<and> le (Finite 422) 499" by simp
    then show ?thesis unfolding 6 new_ValidationWarn_def
      by (subst new_WarnError_fixed) (simp, simp, blast)
  next
    case 7
    have "ge (Finite 429) 400 \<and> le (Finite 429) 499" by simp
    then show ?thesis unfolding 7 new_TooManyRequestsWarn_def
      by (subst new_WarnError_fixed) (simp, simp, blast)
  next
    case 8
    have "ge (Finite 404) 400 \<and> le (Finite 404) 499" by simp
    then show ?thesis unfolding 8 new_UnknownRouteWarn_def
      by (subst new_WarnError_fixed) (simp, simp, blast)
  next
    case 9
    have "ge (Finite 401) 400 \<and> le (Finite 401) 499" by simp
    then show ?thesis unfolding 9 new_AuthWarn_def
      by (subst new_WarnError_fixed) (simp, simp, blast)
  qed
qed

lemma exception_subclass_constructs:
  assumes "new \<in> set (exception_subclasses nfc)"
  shows "\<exists>c d cd s. new om pp =
      Completes (ErrorObject (Exception c) (normalized nfc (nullish om d)) cd error s
            (Some (nullish (Option.bind pp pp_userMessage) (nullish om d)))
            (Option.bind pp pp_data) None)
      \<and> ge s 500 \<and> le s 599"
proof -
  from assms consider "new = new_InternalServerError nfc" | "new = new_DatabaseError nfc"
    | "new = new_MailError nfc" | "new = new_EncryptError nfc"
    | "new = new_ConfigError nfc" | "new = new_IntegrationError nfc"
    | "new = new_TimeoutError nfc" | "new = new_StorageError nfc"
    | "new = new_NetworkError nfc" | "new = new_LogError nfc"
    | "new = new_MemoryError nfc" | "new = new_AuthError nfc"
    by (auto simp: exception_subclasses_def)
  then show ?thesis
  proof cases
    case 1
    have "ge (Finite 500) 500 \<and> le (Finite 500) 599" by simp
    then show ?thesis unfolding 1 new_InternalServerError_def
      by (subst new_ExceptionError_fixed) (simp, simp, blast)
  next
    case 2
    have "ge (Finite 500) 500 \<and> le (Finite 500) 599" by simp
    then show ?thesis unfolding 2 new_DatabaseError_def
      by (subst new_ExceptionError_fixed) (simp, simp, blast)
  next
    case 3
    have "ge (Finite 502) 500 \<and> le (Finite 502) 599" by simp
    then show ?thesis unfolding 3 new_MailError_def
      by (subst new_ExceptionError_fixed) (simp, simp, blast)
  next
    case 4
    have "ge (Finite 500) 500 \<and> le (Finite 500) 599" by simp
    then show ?thesis unfolding 4 new_EncryptError_def
      by (subst new_ExceptionError_fixed) (simp, simp, blast)
  next
    case 5
    have "ge (Finite 500) 500 \<and> le (Finite 500) 599" by simp
    then show ?thesis unfolding 5 new_ConfigError_def
      by (subst new_ExceptionError_fixed) (simp, simp, blast)
  next
    case 6
    have "ge (Finite 502) 500 \<and> le (Finite 502) 599" by simp
    then show ?thesis unfolding 6 new_IntegrationError_def
      by (subst new_ExceptionError_fixed) (simp, simp, blast)
  next
    case 7
    have "ge (Finite 504) 500 \<and> le (Finite 504) 599" by simp
    then show ?thesis unfolding 7 new_TimeoutError_def
      by (subst new_ExceptionError_fixed) (simp, simp, blast)
  next
    case 8
    have "ge (Finite 507) 500 \<and> le (Finite 507) 599" by simp
    then show ?thesis unfolding 8 new_StorageError_def
      by (subst new_ExceptionError_fixed) (simp, simp, blast)
  next
    case 9
    have "ge (Finite 503) 500 \<and> le (Finite 503) 599" by simp
    then show ?thesis unfolding 9 new_NetworkError_def
      by (subst new_ExceptionError_fixed) (simp, simp, blast)
  next
    case 10
    have "ge (Finite 500) 500 \<and> le (Finite 500) 599" by simp
    then show ?thesis unfolding 10 new_LogError_def
      by (subst new_ExceptionError_fixed) (simp, simp, blast)
  next
    case 11
    have "ge (Finite 507) 500 \<and> le (Finite 507) 599" by simp
    then show ?thesis unfolding 11 new_MemoryError_def
      by (subst new_ExceptionError_fixed) (simp, simp, blast)
  next
    case 12
    have "ge (Finite 500) 500 \<and> le (Finite 500) 599" by simp
    then show ?thesis unfolding 12 new_AuthError_def
      by (subst new_ExceptionError_fixed) (simp, simp, blast)
  qed
qed




lemma outcome_is_base_construction:
  "\<exists>c p'. outcome (new_WarnError nfc t m p) = new_CustomError nfc c m p'"
  "\<exists>c p'. outcome (new_ExceptionError nfc t' m p) = new_CustomError nfc c m p'"
proof -
  show "\<exists>c p'. outcome (new_WarnError nfc t m p) = new_CustomError nfc c m p'"
  proof (cases p rule: new_WarnError_cases)
    case completes
    from new_WarnError_completes [OF completes, of nfc t m] show ?thesis by (simp, blast)
  next
    case server
    from new_WarnError_redirected [OF server, of nfc t m] show ?thesis by (simp, blast)
  next
    case twice
    from new_WarnError_twice [OF twice, of nfc t m] show ?thesis by (simp, blast)
  next
    case neutral
    from new_WarnError_neutral [OF neutral, of nfc t m] show ?thesis by (simp, blast)
  qed
  show "\<exists>c p'. outcome (new_ExceptionError nfc t' m p) = new_CustomError nfc c m p'"
  proof (cases p rule: new_ExceptionError_cases)
    case completes
    from new_ExceptionError_completes [OF completes, of nfc t' m] show ?thesis by (simp, blast)
  next
    case client
    from new_ExceptionError_redirected [OF client, of nfc t' m] show ?thesis by (simp, blast)
  next
    case neutral
    from new_ExceptionError_neutral [OF neutral, of nfc t' m] show ?thesis by (simp, blast)
  qed
qed

lemma from_userMessage:
  "\<not> instanceof_CustomError v \<Longrightarrow> \<exists>u. userMessage_of (CustomError_from nfc v ov) = Some u"
  by (cases v) simp_all

text \<open>The number of redirections of each constructor.\<close>

lemma redirections_WarnError:
  "redirections (new_WarnError nfc t m p) =
     (if \<not> lt (nullish (Option.bind p p_status) (Finite 400)) 400
         \<and> \<not> gt (nullish (Option.bind p p_status) (Finite 400)) 499 then 0
      else if gt (nullish (Option.bind p p_status) (Finite 400)) 499
               \<and> lt (nullish (Option.bind p p_status) (Finite 400)) 500
            \<or> gt (nullish (Option.bind p p_status) (Finite 400)) 599
               \<and> lt (nullish (Option.bind p p_status) (Finite 400)) 600 then 2
      else 1)"
proof (cases p rule: new_WarnError_cases)
  case completes
  from new_WarnError_completes [OF completes, of nfc t m] completes show ?thesis by simp
next
  case server
  from new_WarnError_redirected [OF server, of nfc t m] server show ?thesis
    by (cases "nullish (Option.bind p p_status) (Finite 400)") auto
next
  case twice
  from new_WarnError_twice [OF twice, of nfc t m] twice show ?thesis
    by (cases "nullish (Option.bind p p_status) (Finite 400)") auto
next
  case neutral
  from new_WarnError_neutral [OF neutral, of nfc t m] neutral show ?thesis
    by (cases "nullish (Option.bind p p_status) (Finite 400)") auto
qed

lemma redirections_ExceptionError:
  "redirections (new_ExceptionError nfc t m p) =
     (if \<not> lt (nullish (Option.bind p p_status) (Finite 500)) 500
         \<and> \<not> gt (nullish (Option.bind p p_status) (Finite 500)) 599 then 0
      else 1)"
proof (cases p rule: new_ExceptionError_cases)
  case completes
  from new_ExceptionError_completes [OF completes, of nfc t m] completes show ?thesis by simp
next
  case client
  from new_ExceptionError_redirected [OF client, of nfc t m] client show ?thesis
    by (cases "nullish (Option.bind p p_status) (Finite 500)") auto
next
  case neutral
  from new_ExceptionError_neutral [OF neutral, of nfc t m] neutral show ?thesis
    by (cases "nullish (Option.bind p p_status) (Finite 500)") auto
qed

section \<open>The white space steps give the words joined by single spaces\<close>

text \<open>Unfolding these evaluates the normalizer on a string given by its characters.\<close>

lemmas normalize_eval = str_def trim_def isWhiteSpace_def normalize_NFC_def normalized_def

lemma trim_trim_end: "trim s = trim_end (dropWhile isWhiteSpace s)"
  by (simp add: trim_def trim_end_def)

lemma trim_end_Nil [simp]: "trim_end [] = []"
  by (simp add: trim_end_def)

lemma trim_end_Cons:
  "trim_end (c # cs) = (if list_all isWhiteSpace (c # cs) then [] else c # trim_end cs)"
  by (auto simp: trim_end_def dropWhile_append list_all_iff)

lemma trim_end_all: "list_all isWhiteSpace s \<Longrightarrow> trim_end s = []"
  by (induction s) (simp_all add: trim_end_Cons)

lemma trim_end_append:
  "list_all (\<lambda>x. \<not> isWhiteSpace x) u \<Longrightarrow> trim_end (u @ v) = u @ trim_end v"
  by (induction u) (auto simp: trim_end_Cons trim_end_all)

lemma dropWhile_all: "list_all P s \<Longrightarrow> dropWhile P s = []"
  by (simp add: list_all_iff)

lemma dropWhile_trim_end:
  "dropWhile isWhiteSpace (trim_end s) = trim_end (dropWhile isWhiteSpace s)"
  by (induction s) (auto simp: trim_end_Cons dropWhile_all)

lemma replace_append:
  "list_all (\<lambda>x. \<not> isWhiteSpace x) u \<Longrightarrow>
     replace_whitespace_runs (u @ v) = u @ replace_whitespace_runs v"
  by (induction u) auto

lemma words_of_empty: "words_of s = [] \<longleftrightarrow> list_all isWhiteSpace s"
  by (induction s rule: words_of.induct) auto

lemma join_words_Cons:
  "join_words (w # ws) = (if ws = [] then w else w @ 0x20 # join_words ws)"
  by (cases ws) simp_all

lemma takeWhile_all: "list_all (\<lambda>x. \<not> P x) (takeWhile (\<lambda>x. \<not> P x) cs)"
  by (induction cs) auto

lemma whitespace_pipeline:
  "replace_whitespace_runs (trim_end (dropWhile isWhiteSpace s)) = join_words (words_of s)"
proof (induction s rule: words_of.induct)
  case 1
  show ?case by simp
next
  case (2 c cs)
  show ?case
  proof (cases "isWhiteSpace c")
    case True
    with 2 show ?thesis by simp
  next
    case False
    define u where "u = takeWhile (\<lambda>x. \<not> isWhiteSpace x) cs"
    define v where "v = dropWhile (\<lambda>x. \<not> isWhiteSpace x) cs"
    have cs: "cs = u @ v" by (simp add: u_def v_def)
    have u: "list_all (\<lambda>x. \<not> isWhiteSpace x) (c # u)"
      using False by (simp add: u_def takeWhile_all)
    have ih: "replace_whitespace_runs (trim_end (dropWhile isWhiteSpace v)) = join_words (words_of v)"
      using 2(2) False by (simp add: v_def)
    have "replace_whitespace_runs (trim_end (dropWhile isWhiteSpace (c # cs))) =
        replace_whitespace_runs (trim_end ((c # u) @ v))"
      using False by (simp add: cs)
    also have "\<dots> = (c # u) @ replace_whitespace_runs (trim_end v)"
      using u by (simp only: trim_end_append replace_append)
    also have "replace_whitespace_runs (trim_end v) =
        (if words_of v = [] then [] else 0x20 # join_words (words_of v))"
    proof (cases v)
      case Nil
      then show ?thesis by simp
    next
      case (Cons d v')
      then have d: "isWhiteSpace d"
        using dropWhile_eq_Cons_conv [of "\<lambda>x. \<not> isWhiteSpace x" cs d v'] by (simp add: v_def)
      show ?thesis
      proof (cases "list_all isWhiteSpace v")
        case True
        then show ?thesis by (simp add: trim_end_all words_of_empty)
      next
        case False
        then have "trim_end v = d # trim_end v'"
          by (simp add: Cons trim_end_Cons)
        then have "replace_whitespace_runs (trim_end v) =
            0x20 # replace_whitespace_runs (dropWhile isWhiteSpace (trim_end v'))"
          using d by simp
        also have "dropWhile isWhiteSpace (trim_end v') = trim_end (dropWhile isWhiteSpace v)"
          using d by (simp add: Cons dropWhile_trim_end)
        finally show ?thesis
          using False ih by (simp add: words_of_empty)
      qed
    qed
    also have "(c # u) @ (if words_of v = [] then [] else 0x20 # join_words (words_of v)) =
        join_words (words_of (c # cs))"
      using False by (simp add: join_words_Cons u_def v_def)
    finally show ?thesis .
  qed
qed

lemma trim_replace_words: "replace_whitespace_runs (trim s) = join_words (words_of s)"
  by (simp add: trim_trim_end whitespace_pipeline)

lemma words_of_wellformed:
  "w \<in> set (words_of s) \<Longrightarrow> w \<noteq> [] \<and> list_all (\<lambda>x. \<not> isWhiteSpace x) w"
  by (induction s rule: words_of.induct) (auto simp: takeWhile_all split: if_splits)

lemma adjacent_whitespace_append:
  "list_all (\<lambda>x. \<not> isWhiteSpace x) u \<Longrightarrow> adjacent_whitespace (u @ v) = adjacent_whitespace v"
proof (induction u)
  case Nil
  show ?case by simp
next
  case (Cons a u)
  then show ?case by (cases "u @ v") auto
qed

lemma adjacent_whitespace_none:
  "list_all (\<lambda>x. \<not> isWhiteSpace x) u \<Longrightarrow> \<not> adjacent_whitespace u"
  using adjacent_whitespace_append [of u "[]"] by simp

lemma join_words_normal:
  assumes "wl \<noteq> []" and "\<forall>w\<in>set wl. w \<noteq> [] \<and> list_all (\<lambda>x. \<not> isWhiteSpace x) w"
  shows "join_words wl \<noteq> [] \<and> \<not> isWhiteSpace (hd (join_words wl))
       \<and> \<not> isWhiteSpace (last (join_words wl))
       \<and> (\<forall>c\<in>set (join_words wl). isWhiteSpace c \<longrightarrow> c = 0x20)
       \<and> \<not> adjacent_whitespace (join_words wl)"
  using assms
proof (induction wl rule: join_words.induct)
  case 1
  then show ?case by simp
next
  case (2 w)
  then show ?case
    by (cases w) (auto simp: list_all_iff adjacent_whitespace_none)
next
  case (3 w v ws)
  define J where "J = join_words (v # ws)"
  have J: "J \<noteq> [] \<and> \<not> isWhiteSpace (hd J) \<and> \<not> isWhiteSpace (last J)
       \<and> (\<forall>c\<in>set J. isWhiteSpace c \<longrightarrow> c = 0x20) \<and> \<not> adjacent_whitespace J"
    unfolding J_def using 3 by simp
  have w: "w \<noteq> []" "list_all (\<lambda>x. \<not> isWhiteSpace x) w"
    using 3(3) by simp_all
  have eq: "join_words (w # v # ws) = w @ 0x20 # J"
    by (simp add: J_def)
  have "\<not> adjacent_whitespace (0x20 # J)"
    using J by (cases J) simp_all
  then have adj: "\<not> adjacent_whitespace (w @ 0x20 # J)"
    using w by (simp add: adjacent_whitespace_append)
  have hd: "\<not> isWhiteSpace (hd (w @ 0x20 # J))"
    using w by (cases w) simp_all
  show ?case
    unfolding eq using J w adj hd by (auto simp: list_all_iff)
qed

lemma join_words_not_redundant: "\<not> redundant_whitespace (join_words (words_of s))"
proof (cases "words_of s = []")
  case True
  then show ?thesis by (simp add: redundant_whitespace_def)
next
  case False
  from join_words_normal [OF False] words_of_wellformed [of _ s]
  show ?thesis by (auto simp: redundant_whitespace_def list_ex_iff)
qed

lemma filter_takeWhile_same: "filter P (takeWhile P xs) = takeWhile P xs"
  by (induction xs) simp_all

lemma words_of_content: "concat (words_of s) = filter (\<lambda>x. \<not> isWhiteSpace x) s"
proof (induction s rule: words_of.induct)
  case 1
  show ?case by simp
next
  case (2 c cs)
  have "filter (\<lambda>x. \<not> isWhiteSpace x) cs =
      filter (\<lambda>x. \<not> isWhiteSpace x)
        (takeWhile (\<lambda>x. \<not> isWhiteSpace x) cs @ dropWhile (\<lambda>x. \<not> isWhiteSpace x) cs)"
    by simp
  also have "\<dots> = takeWhile (\<lambda>x. \<not> isWhiteSpace x) cs
      @ filter (\<lambda>x. \<not> isWhiteSpace x) (dropWhile (\<lambda>x. \<not> isWhiteSpace x) cs)"
    unfolding filter_append by (simp only: filter_takeWhile_same)
  finally show ?case using 2 by simp
qed

lemma set_words_of: "w \<in> set (words_of s) \<Longrightarrow> set w \<subseteq> set s"
proof -
  assume "w \<in> set (words_of s)"
  then have "set w \<subseteq> set (concat (words_of s))" by auto
  then show ?thesis by (auto simp: words_of_content)
qed

lemma set_join_words: "set (join_words wl) \<subseteq> insert 0x20 (\<Union> (set ` set wl))"
  by (induction wl rule: join_words.induct) auto

lemma join_words_low:
  assumes "list_all (\<lambda>c. c < 0x300) s"
  shows "list_all (\<lambda>c. c < 0x300) (join_words (words_of s))"
proof -
  have "set (join_words (words_of s)) \<subseteq> insert 0x20 (set s)"
    using set_join_words [of "words_of s"] set_words_of [of _ s] by auto
  with assms show ?thesis by (auto simp: list_all_iff)
qed

lemma placeholder_normal:
  "normalized nfc (str ''Erro desconhecido'') = str ''Erro desconhecido''"
  by (simp add: normalize_eval)

lemma normalized_words:
  "normalized nfc s = normalize_NFC nfc (join_words (words_of s))"
  by (simp add: normalized_def trim_replace_words)

section \<open>Category and status\<close>




text \<open>
  C2. The guard of the \<open>WarnError\<close> constructor is \<open>status < 400 || status > 499\<close> and
  the one of the \<open>ExceptionError\<close> constructor \<open>status < 500 || status > 599\<close>. Every
  comparison with \<open>NaN\<close> is false, so \<open>new WarnError("f", { status: NaN })\<close> completes:
  the instance is of the client family, has category \<open>warn\<close> and status \<open>NaN\<close>, which is
  not in [400,499]; and \<open>new ExceptionError("f", { status: NaN })\<close> completes with category
  \<open>error\<close> and status \<open>NaN\<close>, which is not in [500,599].
\<close>

theorem nan_status_completes:
  "new_WarnError id WarnError (str ''f'') (only_status NaN) =
     Completes (ErrorObject (Warn WarnError) (str ''f'') (str ''WARN'') warn NaN
       (Some (str ''f'')) None None)
   \<and> new_ExceptionError id ExceptionError (str ''f'') (only_status NaN) =
     Completes (ErrorObject (Exception ExceptionError) (str ''f'') (str ''ERROR'') error NaN
       (Some (str ''f'')) None None)
   \<and> \<not> (ge NaN 400 \<and> le NaN 499)
   \<and> \<not> (ge NaN 500 \<and> le NaN 599)"
  by (simp add: only_status_def new_WarnError_completes new_ExceptionError_completes
      new_CustomError_def spread_def normalize_eval)

section \<open>Redirection\<close>

text \<open>
  C3. The status \<open>NaN\<close> is outside both ranges, and constructing either family with it
  does not produce the base type: no redirection takes place and the instance completed
  is of the family that was asked for.
\<close>

theorem nan_status_not_redirected:
  "\<not> (ge NaN 400 \<and> le NaN 499) \<and> \<not> (ge NaN 500 \<and> le NaN 599)
   \<and> redirections (new_WarnError id WarnError (str ''f'') (only_status NaN)) = 0
   \<and> name_of (outcome (new_WarnError id WarnError (str ''f'') (only_status NaN)))
       = Warn WarnError
   \<and> redirections (new_ExceptionError id ExceptionError (str ''f'') (only_status NaN)) = 0
   \<and> name_of (outcome (new_ExceptionError id ExceptionError (str ''f'') (only_status NaN)))
       = Exception ExceptionError"
  by (simp add: only_status_def new_WarnError_completes new_ExceptionError_completes)

text \<open>
  C4. The \<open>WarnError\<close> constructor hands every status with \<open>status > 499 && status < 600\<close>
  over to the \<open>ExceptionError\<close> constructor, which accepts those from 500 to 599 only. A
  status strictly between 499 and 500, or strictly between 599 and 600, is therefore
  redirected a second time, to the base class: \<open>new WarnError("f", { status: 499.5 })\<close>
  throws through two constructors, and so does the status 599.5.
\<close>

theorem fractional_status_redirects_twice:
  "new_WarnError id WarnError (str ''f'') (only_status (Finite (999 / 2))) =
     Throws (new_ExceptionError id ExceptionError (str ''f'') (only_status (Finite (999 / 2))))
   \<and> new_ExceptionError id ExceptionError (str ''f'') (only_status (Finite (999 / 2))) =
     Throws (Completes
       (new_CustomError id CustomError (str ''f'') (only_status (Finite (999 / 2)))))
   \<and> redirections (new_WarnError id WarnError (str ''f'') (only_status (Finite (999 / 2)))) = 2
   \<and> redirections (new_WarnError id WarnError (str ''f'') (only_status (Finite (1199 / 2))))
       = 2"
  by (simp add: only_status_def new_WarnError_to_ExceptionError new_ExceptionError_neutral
      redirections_WarnError)

section \<open>The wrapping factory returns instances unchanged\<close>

text \<open>
  C7. \<open>from\<close> returns a value that is already an instance of the base class as it is, for
  every override, so wrapping the result of \<open>from\<close> again gives the same instance, for
  every input value.
\<close>

theorem from_idempotent:
  "CustomError_from nfc (JCustom x) override = x
   \<and> CustomError_from nfc (JCustom (CustomError_from nfc v override)) override' =
       CustomError_from nfc v override"
  by simp

section \<open>The response shape\<close>

text \<open>
  C8. \<open>toHttp\<close> of either family returns the status of the instance and a body with its
  code, its category, its user message, or its message when it has none, and its data, or
  \<open>null\<close> when it has none. The instance built by \<open>new NotFoundWarn("Resource X")\<close> is
  shaped to status 404 and the body with code \<open>NOT_FOUND_WARN\<close>, category \<open>warn\<close>, message
  \<open>Resource X\<close> and data \<open>null\<close>.
\<close>

theorem toHttp_shape:
  "WarnError_toHttp this =
     \<lparr>response_status = status_of this,
      response_body =
        \<lparr>body_code = code_of this, body_type = type_of this,
         body_message = (case userMessage_of this of Some u \<Rightarrow> u | None \<Rightarrow> message_of this),
         body_data = (case data_of this of Some d \<Rightarrow> JObject d | None \<Rightarrow> JNull)\<rparr>\<rparr>
   \<and> ExceptionError_toHttp this =
     \<lparr>response_status = status_of this,
      response_body =
        \<lparr>body_code = code_of this, body_type = type_of this,
         body_message = (case userMessage_of this of Some u \<Rightarrow> u | None \<Rightarrow> message_of this),
         body_data = (case data_of this of Some d \<Rightarrow> JObject d | None \<Rightarrow> JNull)\<rparr>\<rparr>
   \<and> new_NotFoundWarn nfc (Some (str ''Resource X'')) None =
     Completes (ErrorObject (Warn NotFoundWarn) (str ''Resource X'') (str ''NOT_FOUND_WARN'')
        warn (Finite 404) (Some (str ''Resource X'')) None None)
   \<and> WarnError_toHttp (outcome (new_NotFoundWarn nfc (Some (str ''Resource X'')) None)) =
     \<lparr>response_status = Finite 404,
      response_body =
        \<lparr>body_code = str ''NOT_FOUND_WARN'', body_type = warn,
         body_message = str ''Resource X'', body_data = JNull\<rparr>\<rparr>"
proof -
  have c: "new_NotFoundWarn nfc (Some (str ''Resource X'')) None =
     Completes (ErrorObject (Warn NotFoundWarn) (str ''Resource X'') (str ''NOT_FOUND_WARN'')
        warn (Finite 404) (Some (str ''Resource X'')) None None)"
    by (simp add: new_NotFoundWarn_def new_WarnError_fixed normalize_eval)
  show ?thesis
    by (simp add: c) (simp add: WarnError_toHttp_def ExceptionError_toHttp_def nullish_def)
qed

text \<open>
  C9. The base constructor stores the user message of the bag, or the normalized message
  when the bag has none, so every instance that the constructors and \<open>from\<close> produce has a
  user message, and the message of the body that \<open>toHttp\<close> returns is that user message:
  the fallback to \<open>this.message\<close> is never taken.
\<close>

theorem userMessage_defined:
  "userMessage_of (new_CustomError nfc c m p) =
     Some (nullish (Option.bind p p_userMessage) (normalized nfc m))
   \<and> (e \<in> constructed nfc \<longrightarrow>
        (\<exists>u. userMessage_of e = Some u
           \<and> body_message (response_body (WarnError_toHttp e)) = u
           \<and> body_message (response_body (ExceptionError_toHttp e)) = u))"
proof (rule conjI)
  show "userMessage_of (new_CustomError nfc c m p) =
     Some (nullish (Option.bind p p_userMessage) (normalized nfc m))"
    by simp
  show "e \<in> constructed nfc \<longrightarrow>
        (\<exists>u. userMessage_of e = Some u
           \<and> body_message (response_body (WarnError_toHttp e)) = u
           \<and> body_message (response_body (ExceptionError_toHttp e)) = u)"
  proof
    assume "e \<in> constructed nfc"
    then have "\<exists>u. userMessage_of e = Some u"
    proof induction
      case (by_CustomError message properties)
      show ?case by simp
    next
      case (by_WarnError message properties)
      from outcome_is_base_construction(1) [of nfc WarnError message properties]
      show ?case by auto
    next
      case (by_ExceptionError message properties)
      from outcome_is_base_construction(2) [of nfc ExceptionError message properties]
      show ?case by auto
    next
      case (by_warn_subclass new optional_message partial)
      from warn_subclass_constructs [OF by_warn_subclass, of optional_message partial]
      show ?case by auto
    next
      case (by_exception_subclass new optional_message partial)
      from exception_subclass_constructs [OF by_exception_subclass, of optional_message partial]
      show ?case by auto
    next
      case (by_from err override)
      then show ?case by (rule from_userMessage)
    next
      case (by_from_instance e override)
      then show ?case by simp
    qed
    then show "\<exists>u. userMessage_of e = Some u
           \<and> body_message (response_body (WarnError_toHttp e)) = u
           \<and> body_message (response_body (ExceptionError_toHttp e)) = u"
      by (auto simp: WarnError_toHttp_def ExceptionError_toHttp_def)
  qed
qed

theorem userMessage_defined_witness:
  "outcome (new_WarnError id WarnError (str ''gone'') (only_status (Finite 410)))
     \<in> constructed id
   \<and> userMessage_of
       (outcome (new_WarnError id WarnError (str ''gone'') (only_status (Finite 410))))
       = Some (str ''gone'')
   \<and> body_message (response_body (WarnError_toHttp
        (outcome (new_WarnError id WarnError (str ''gone'') (only_status (Finite 410))))))
       = str ''gone''"
proof -
  have m: "outcome (new_WarnError id WarnError (str ''gone'') (only_status (Finite 410)))
      \<in> constructed id"
    by (rule constructed.by_WarnError)
  have u: "userMessage_of
      (outcome (new_WarnError id WarnError (str ''gone'') (only_status (Finite 410))))
       = Some (str ''gone'')"
    by (simp add: only_status_def new_WarnError_completes spread_def)
  from userMessage_defined [of id CustomError "str ''gone''" None
       "outcome (new_WarnError id WarnError (str ''gone'') (only_status (Finite 410)))"] m u
  show ?thesis by auto
qed

section \<open>The wrapping factory\<close>

text \<open>
  C6, as amended. The placeholder of \<open>from\<close> is \<open>Erro desconhecido\<close>, not
  \<open>Unknown error\<close>: \<open>from("plain string")\<close> has it as message and as user message.
\<close>

theorem from_placeholder_not_unknown_error:
  "message_of (CustomError_from id (JStr (str ''plain string'')) None) \<noteq> str ''Unknown error''
   \<and> userMessage_of (CustomError_from id (JStr (str ''plain string'')) None)
       \<noteq> Some (str ''Unknown error'')"
  by (simp add: normalize_eval)

text \<open>
  C6, as amended. For a native error, \<open>from\<close> builds an instance of the base class with
  the normalized message of the error (the placeholder \<open>Erro desconhecido\<close> when it is
  empty), user message the message of the error, code \<open>SYSTEM_ERROR\<close>, category \<open>error\<close>,
  status 500 and cause the error itself, each unless the override gives the field, and
  with the data of the override. For any other value that is no instance of the base
  class, it builds one with message \<open>Erro desconhecido\<close>, code \<open>SYSTEM_ERROR\<close>, category
  \<open>error\<close>, status 500, data \<open>{error: value}\<close> and user message \<open>Erro desconhecido\<close>,
  each unless the override gives the field, and with the cause of the override.
\<close>

theorem from_wraps:
  "CustomError_from nfc (JError n msg) override =
     ErrorObject CustomError
       (normalized nfc (if msg \<noteq> [] then msg else str ''Erro desconhecido''))
       (nullish (Option.bind override p_code) (str ''SYSTEM_ERROR''))
       (nullish (Option.bind override p_type) error)
       (nullish (Option.bind override p_status) (Finite 500))
       (Some (nullish (Option.bind override p_userMessage) msg))
       (Option.bind override p_data)
       (Some (nullish_unknown (Option.bind override p_cause) (JError n msg)))
   \<and> (\<not> instanceof_CustomError v \<and> \<not> instanceof_native_Error v \<longrightarrow>
        CustomError_from nfc v override =
          ErrorObject CustomError
            (str ''Erro desconhecido'')
            (nullish (Option.bind override p_code) (str ''SYSTEM_ERROR''))
            (nullish (Option.bind override p_type) error)
            (nullish (Option.bind override p_status) (Finite 500))
            (Some (nullish (Option.bind override p_userMessage) (str ''Erro desconhecido'')))
            (Some (nullish (Option.bind override p_data) [(str ''error'', v)]))
            (Option.bind override p_cause))"
  by (cases v) (simp_all add: new_CustomError_def Let_def placeholder_normal)

theorem from_wraps_witness:
  "\<not> instanceof_CustomError (JStr (str ''plain string''))
   \<and> \<not> instanceof_native_Error (JStr (str ''plain string''))
   \<and> CustomError_from id (JStr (str ''plain string'')) None =
       ErrorObject CustomError (str ''Erro desconhecido'') (str ''SYSTEM_ERROR'') error
         (Finite 500) (Some (str ''Erro desconhecido''))
         (Some [(str ''error'', JStr (str ''plain string''))]) None
   \<and> CustomError_from id (JError (str ''Error'') (str ''boom'')) None =
       ErrorObject CustomError (str ''boom'') (str ''SYSTEM_ERROR'') error (Finite 500)
         (Some (str ''boom'')) None (Some (JError (str ''Error'') (str ''boom'')))"
proof -
  have "normalized id (str ''boom'') = str ''boom''"
    by (simp add: normalize_eval)
  with from_wraps [of id "str ''Error''" "str ''boom''" None "JStr (str ''plain string'')"]
  show ?thesis by (simp add: nullish_unknown_def str_def)
qed

end
